theory Spec2Isabelle
  imports Main "HOL-Library.Word"
begin

section \<open>Values\<close>

text \<open>
  The server (\<^verbatim>\<open>server.js\<close>) is an Express application whose routes pass JSON payloads
  to two collections of a document database.  Documents are objects whose fields keep the
  order in which they were written; the database adds one kind of value that JSON does not
  have, the 12-byte object identifier.  Numbers are never computed with by the server, so
  an integer payload stands for them.
\<close>

type_synonym oid = "96 word"

datatype json =
    JNull
  | JBool bool
  | JNum int
  | JStr string
  | JArr "json list"
  | JObj "(string \<times> json) list"
  | JOid oid

type_synonym doc = "(string \<times> json) list"

text \<open>The exceptions that can reach a \<^verbatim>\<open>catch\<close> branch, each with its detail message.\<close>

datatype error =
    TypeError string
  | BSONError string
  | MongoInvalidArgumentError string
  | MongoServerError nat string
  | MongoNetworkError string
  | FileError string
  | SyntaxError string

subsection \<open>Fields of an object\<close>

text \<open>
  Reading a field is \<^const>\<open>map_of\<close>.  Writing a field (\<^verbatim>\<open>o[k] = v\<close>, a spread followed by a
  key, one field of a \<^verbatim>\<open>$set\<close>) replaces the value where the key already is and appends the key
  otherwise.
\<close>

primrec set_field :: "string \<Rightarrow> json \<Rightarrow> doc \<Rightarrow> doc" where
  "set_field k v [] = [(k, v)]"
| "set_field k v (p # ps) = (if fst p = k then (k, v) # ps else p # set_field k v ps)"

text \<open>
  Property access on a value of a request payload: \<^verbatim>\<open>null.id\<close> throws, an object yields the
  field or \<^verbatim>\<open>undefined\<close> (\<^const>\<open>None\<close>), and the other values have no property of a name
  the server reads.
\<close>

fun get_prop :: "json \<Rightarrow> string \<Rightarrow> error + json option" where
  "get_prop JNull k = Inl (TypeError ''Cannot read properties of null'')"
| "get_prop (JObj fs) k = Inr (map_of fs k)"
| "get_prop _ k = Inr None"

subsection \<open>Object identifiers\<close>

text \<open>
  An identifier is written as 24 hexadecimal digits.  \<^verbatim>\<open>new ObjectId(x)\<close> (BSON library,
  version 6) accepts a string of exactly 24 hexadecimal digits of either case, generates a
  new identifier when \<open>x\<close> is \<^verbatim>\<open>undefined\<close>, \<^verbatim>\<open>null\<close> or a number, unwraps an object
  that has a string field \<^verbatim>\<open>id\<close>, and throws on everything else.  The identifier that the
  generator would produce is the first argument.
\<close>

definition hex_val :: "char \<Rightarrow> nat option" where
  "hex_val c =
     (let n = (of_char c :: nat)
      in if 48 \<le> n \<and> n \<le> 57 then Some (n - 48)
         else if 97 \<le> n \<and> n \<le> 102 then Some (n - 87)
         else if 65 \<le> n \<and> n \<le> 70 then Some (n - 55)
         else None)"

definition hex_chr :: "nat \<Rightarrow> char" where
  "hex_chr d = (if d < 10 then char_of (48 + d) else char_of (87 + d))"

fun parse_hex :: "nat \<Rightarrow> string \<Rightarrow> nat option" where
  "parse_hex acc [] = Some acc"
| "parse_hex acc (c # cs) =
     (case hex_val c of None \<Rightarrow> None | Some d \<Rightarrow> parse_hex (16 * acc + d) cs)"

fun hex_of_nat :: "nat \<Rightarrow> nat \<Rightarrow> string" where
  "hex_of_nat 0 n = []"
| "hex_of_nat (Suc k) n = hex_of_nat k (n div 16) @ [hex_chr (n mod 16)]"

definition toHexString :: "oid \<Rightarrow> string" where
  "toHexString w = hex_of_nat 24 (unat w)"

definition ObjectId_of_string :: "string \<Rightarrow> error + oid" where
  "ObjectId_of_string s =
     (if length s = 24 then
        (case parse_hex 0 s of
           Some n \<Rightarrow> Inr (of_nat n)
         | None \<Rightarrow> Inl (BSONError ''input must be a 24 character hex string, 12 byte Uint8Array, or an integer''))
      else Inl (BSONError ''input must be a 24 character hex string, 12 byte Uint8Array, or an integer''))"

fun ObjectId :: "oid \<Rightarrow> json option \<Rightarrow> error + oid" where
  "ObjectId g None = Inr g"
| "ObjectId g (Some JNull) = Inr g"
| "ObjectId g (Some (JNum n)) = Inr g"
| "ObjectId g (Some (JStr s)) = ObjectId_of_string s"
| "ObjectId g (Some (JOid w)) = Inr w"
| "ObjectId g (Some (JObj fs)) =
     (case map_of fs ''id'' of
        Some (JStr s) \<Rightarrow> ObjectId_of_string s
      | Some _ \<Rightarrow> Inl (BSONError ''Argument passed in must have an id that is of type string or Buffer'')
      | None \<Rightarrow> Inl (BSONError ''Argument passed in does not match the accepted types''))"
| "ObjectId g (Some _) = Inl (BSONError ''Argument passed in does not match the accepted types'')"

section \<open>The document database\<close>

text \<open>
  A collection is the list of its documents in insertion order.  The driver and the database
  server are libraries outside the repository; the calls below are the ones that
  \<^verbatim>\<open>server.js\<close> makes, with the documented behaviour of the MongoDB Node.js driver (version
  6) and server (version 5 or later), restricted to what the routes use: filters that compare
  \<^verbatim>\<open>_id\<close> with an object identifier, and \<^verbatim>\<open>$set\<close> updates.  Every statement about a
  route below is relative to this model of the calls.

  Each request runs in an environment: \<open>fault\<close> is the error, if any, with which the
  deployment rejects the request's driver call (lost connection, server-side refusal);
  a rejected call leaves the collection as it was.  \<open>gen n\<close> is the \<open>n\<close>-th identifier
  the identifier generator yields during the request.
\<close>

record env =
  fault :: "error option"
  gen :: "nat \<Rightarrow> oid"

record database =
  lessons :: "doc list"
  order_placed :: "doc list"

definition matches_id :: "oid \<Rightarrow> doc \<Rightarrow> bool" where
  "matches_id i d = (map_of d ''_id'' = Some (JOid i))"

definition find_toArray :: "env \<Rightarrow> doc list \<Rightarrow> error + doc list" where
  "find_toArray e coll = (case fault e of Some err \<Rightarrow> Inl err | None \<Rightarrow> Inr coll)"

definition findOne :: "env \<Rightarrow> doc list \<Rightarrow> oid \<Rightarrow> error + doc option" where
  "findOne e coll i =
     (case fault e of Some err \<Rightarrow> Inl err | None \<Rightarrow> Inr (List.find (matches_id i) coll))"

text \<open>
  \<^verbatim>\<open>insertOne\<close> writes a generated \<^verbatim>\<open>_id\<close> into the document it is given when the document
  has none (or has \<^verbatim>\<open>null\<close>) and keeps the caller's \<^verbatim>\<open>_id\<close> otherwise; the server refuses
  an array as \<^verbatim>\<open>_id\<close> and an \<^verbatim>\<open>_id\<close> that a stored document already has.  The result is the
  identifier, the document as mutated, and the collection.
\<close>

definition assign_id :: "oid \<Rightarrow> doc \<Rightarrow> json \<times> doc" where
  "assign_id g d =
     (case map_of d ''_id'' of
        None \<Rightarrow> (JOid g, set_field ''_id'' (JOid g) d)
      | Some JNull \<Rightarrow> (JOid g, set_field ''_id'' (JOid g) d)
      | Some v \<Rightarrow> (v, d))"

definition is_array :: "json \<Rightarrow> bool" where
  "is_array v = (case v of JArr xs \<Rightarrow> True | _ \<Rightarrow> False)"

definition insertOne :: "env \<Rightarrow> doc list \<Rightarrow> doc \<Rightarrow> (error + json \<times> doc) \<times> doc list" where
  "insertOne e coll d =
     (case fault e of
        Some err \<Rightarrow> (Inl err, coll)
      | None \<Rightarrow>
          (case assign_id (gen e 0) d of
             (i, d') \<Rightarrow>
               if is_array i then
                 (Inl (MongoServerError 53 ''The _id value cannot be of type array''), coll)
               else if list_ex (\<lambda>x. map_of x ''_id'' = Some i) coll then
                 (Inl (MongoServerError 11000 ''E11000 duplicate key error collection''), coll)
               else (Inr (i, d'), coll @ [d'])))"

text \<open>
  \<^verbatim>\<open>updateOne(filter, {$set: u})\<close> changes the first document the filter selects, writing the
  fields of \<open>u\<close> in order.  A key is a path: its components are separated by dots, the
  first names a field of the document, and the others lead into the value of that field,
  through embedded documents by field name and through arrays by position.  A path that does
  not exist yet is created as embedded documents; a path through a value that is neither a
  document nor an array, or through an array by something that is not a position, makes
  the update fail.  The update is also refused when it would give the document another
  \<^verbatim>\<open>_id\<close>.  A failed update changes nothing.  When the filter selects nothing, nothing
  happens and the call succeeds.  The result counts the documents matched and modified.

  The server's refusal of an update document for its form alone (an empty path component,
  two paths of which one leads into the other, an array operator as component) is among the
  rejections that \<open>fault\<close> stands for.
\<close>

fun split_path :: "string \<Rightarrow> string list" where
  "split_path [] = [[]]"
| "split_path (c # cs) =
     (if c = CHR ''.'' then [] # split_path cs
      else (case split_path cs of [] \<Rightarrow> [[c]] | p # ps \<Rightarrow> (c # p) # ps))"

fun nested :: "string list \<Rightarrow> json \<Rightarrow> json" where
  "nested [] v = v"
| "nested (c # cs) v = JObj [(c, nested cs v)]"

fun parse_dec :: "nat \<Rightarrow> string \<Rightarrow> nat option" where
  "parse_dec acc [] = Some acc"
| "parse_dec acc (c # cs) =
     (let n = (of_char c :: nat)
      in if 48 \<le> n \<and> n \<le> 57 then parse_dec (10 * acc + (n - 48)) cs else None)"

definition array_index :: "string \<Rightarrow> nat option" where
  "array_index s = (if s = [] then None else parse_dec 0 s)"

fun set_in :: "string list \<Rightarrow> json \<Rightarrow> json \<Rightarrow> error + json" where
  "set_in [] v cur = Inr v"
| "set_in (c # cs) v (JObj fs) =
     (case map_of fs c of
        None \<Rightarrow> Inr (JObj (set_field c (nested cs v) fs))
      | Some x \<Rightarrow>
          (case set_in cs v x of
             Inl err \<Rightarrow> Inl err
           | Inr x' \<Rightarrow> Inr (JObj (set_field c x' fs))))"
| "set_in (c # cs) v (JArr xs) =
     (case array_index c of
        None \<Rightarrow> Inl (MongoServerError 28 ''Cannot create field in element'')
      | Some n \<Rightarrow>
          if n < length xs then
            (case set_in cs v (xs ! n) of
               Inl err \<Rightarrow> Inl err
             | Inr x' \<Rightarrow> Inr (JArr (xs[n := x'])))
          else Inr (JArr (xs @ replicate (n - length xs) JNull @ [nested cs v])))"
| "set_in (c # cs) v cur = Inl (MongoServerError 28 ''Cannot create field in element'')"

definition set_path :: "string \<Rightarrow> json \<Rightarrow> doc \<Rightarrow> error + doc" where
  "set_path k v d =
     (case split_path k of
        [] \<Rightarrow> Inr d
      | c # cs \<Rightarrow>
          (case map_of d c of
             None \<Rightarrow> Inr (set_field c (nested cs v) d)
           | Some x \<Rightarrow>
               (case set_in cs v x of
                  Inl err \<Rightarrow> Inl err
                | Inr x' \<Rightarrow> Inr (set_field c x' d))))"

fun set_fields :: "doc \<Rightarrow> doc \<Rightarrow> error + doc" where
  "set_fields [] d = Inr d"
| "set_fields ((k, v) # kvs) d =
     (case set_path k v d of
        Inl err \<Rightarrow> Inl err
      | Inr d' \<Rightarrow> set_fields kvs d')"

fun update_first :: "oid \<Rightarrow> doc \<Rightarrow> doc list \<Rightarrow> error + doc list \<times> nat \<times> nat" where
  "update_first i u [] = Inr ([], 0, 0)"
| "update_first i u (d # ds) =
     (if matches_id i d then
        (case set_fields u d of
           Inl err \<Rightarrow> Inl err
         | Inr d' \<Rightarrow>
             if map_of d' ''_id'' \<noteq> map_of d ''_id'' then
               Inl (MongoServerError 66 ''Performing an update on the path _id would modify the immutable field _id'')
             else Inr (d' # ds, 1, if d' = d then 0 else 1))
      else
        (case update_first i u ds of
           Inl err \<Rightarrow> Inl err
         | Inr (ds', r) \<Rightarrow> Inr (d # ds', r)))"

definition updateOne :: "env \<Rightarrow> doc list \<Rightarrow> oid \<Rightarrow> doc \<Rightarrow> (error + nat \<times> nat) \<times> doc list" where
  "updateOne e coll i u =
     (case fault e of
        Some err \<Rightarrow> (Inl err, coll)
      | None \<Rightarrow>
          (case update_first i u coll of
             Inl err \<Rightarrow> (Inl err, coll)
           | Inr (coll', r) \<Rightarrow> (Inr r, coll')))"

fun delete_first :: "oid \<Rightarrow> doc list \<Rightarrow> doc list \<times> nat" where
  "delete_first i [] = ([], 0)"
| "delete_first i (d # ds) =
     (if matches_id i d then (ds, 1)
      else (case delete_first i ds of (ds', n) \<Rightarrow> (d # ds', n)))"

definition deleteOne :: "env \<Rightarrow> doc list \<Rightarrow> oid \<Rightarrow> (error + nat) \<times> doc list" where
  "deleteOne e coll i =
     (case fault e of
        Some err \<Rightarrow> (Inl err, coll)
      | None \<Rightarrow> (case delete_first i coll of (coll', n) \<Rightarrow> (Inr n, coll')))"

text \<open>
  \<^verbatim>\<open>bulkWrite\<close> rejects an empty batch before anything is sent.  Otherwise the operations run
  in order; the first one that fails ends the batch, and what ran before it stays written.
\<close>

datatype bulk_op = UpdateOne oid doc

fun run_batch :: "bulk_op list \<Rightarrow> doc list \<Rightarrow> nat \<times> nat \<Rightarrow> (error + nat \<times> nat) \<times> doc list" where
  "run_batch [] coll r = (Inr r, coll)"
| "run_batch (UpdateOne i u # ops) coll (m, n) =
     (case update_first i u coll of
        Inl err \<Rightarrow> (Inl err, coll)
      | Inr (coll', m', n') \<Rightarrow> run_batch ops coll' (m + m', n + n'))"

definition bulkWrite :: "env \<Rightarrow> doc list \<Rightarrow> bulk_op list \<Rightarrow> (error + nat \<times> nat) \<times> doc list" where
  "bulkWrite e coll ops =
     (if ops = [] then
        (Inl (MongoInvalidArgumentError ''Invalid BulkOperation, Batch cannot be empty''), coll)
      else
        (case fault e of
           Some err \<Rightarrow> (Inl err, coll)
         | None \<Rightarrow> run_batch ops coll (0, 0)))"

text \<open>The result of a batch of updates, as the driver's \<^verbatim>\<open>BulkWriteResult\<close> serialises.\<close>

definition result_json :: "nat \<times> nat \<Rightarrow> json" where
  "result_json r =
     JObj [(''insertedCount'', JNum 0),
           (''matchedCount'', JNum (int (fst r))),
           (''modifiedCount'', JNum (int (snd r))),
           (''deletedCount'', JNum 0),
           (''upsertedCount'', JNum 0),
           (''upsertedIds'', JObj []),
           (''insertedIds'', JObj [])]"

section \<open>The server\<close>

text \<open>
  \<open>db1\<close> is the database handle that \<^verbatim>\<open>connectDB\<close> sets; it stays \<^verbatim>\<open>undefined\<close>
  (\<^const>\<open>None\<close>) when the connection failed, and then both collection accessors throw.
  \<open>files\<close> is what is below the server's directory: the regular files and the directories,
  by URL path (\<^verbatim>\<open>/index.html\<close>, \<^verbatim>\<open>/images\<close>, \<^verbatim>\<open>/images/maths.png\<close>).

  A response is its status and its body; a body is JSON, the bytes of a file, a page of HTML
  or nothing.  Response headers are not represented, and requests are taken without
  conditional or range headers.
\<close>

datatype entry = RegularFile | Directory

record server =
  db1 :: "database option"
  files :: "(string \<times> entry) list"

datatype content = Json json | File string | Html string | Empty

record response =
  status :: nat
  body :: content

definition res_json :: "nat \<Rightarrow> json \<Rightarrow> response" where
  "res_json code v = \<lparr>status = code, body = Json v\<rparr>"

definition error_body :: "string \<Rightarrow> json" where
  "error_body m = JObj [(''error'', JStr m)]"

definition message_body :: "string \<Rightarrow> json" where
  "message_body m = JObj [(''message'', JStr m)]"

definition lessonsCollection :: "database option \<Rightarrow> error + doc list" where
  "lessonsCollection d =
     (case d of
        None \<Rightarrow> Inl (TypeError ''Cannot read properties of undefined (reading collection)'')
      | Some db \<Rightarrow> Inr (lessons db))"

definition ordersCollection :: "database option \<Rightarrow> error + doc list" where
  "ordersCollection d =
     (case d of
        None \<Rightarrow> Inl (TypeError ''Cannot read properties of undefined (reading collection)'')
      | Some db \<Rightarrow> Inr (order_placed db))"

text \<open>A write through a collection handle changes that collection of the database.\<close>

definition store_lessons :: "database option \<Rightarrow> doc list \<Rightarrow> database option" where
  "store_lessons d coll = map_option (\<lambda>db. db\<lparr>lessons := coll\<rparr>) d"

definition store_orders :: "database option \<Rightarrow> doc list \<Rightarrow> database option" where
  "store_orders d coll = map_option (\<lambda>db. db\<lparr>order_placed := coll\<rparr>) d"

subsection \<open>Routes\<close>

text \<open>
  Every route is a \<^verbatim>\<open>try\<close> block whose \<^verbatim>\<open>catch\<close> logs the error and answers 500 with a
  message of its own; the error itself goes nowhere else.
\<close>

definition get_lessons :: "env \<Rightarrow> database option \<Rightarrow> response \<times> database option" where
  "get_lessons e d =
     (case lessonsCollection d of
        Inl err \<Rightarrow> (res_json 500 (error_body ''Failed to fetch lessons''), d)
      | Inr coll \<Rightarrow>
          (case find_toArray e coll of
             Inl err \<Rightarrow> (res_json 500 (error_body ''Failed to fetch lessons''), d)
           | Inr ls \<Rightarrow> (res_json 200 (JArr (map JObj ls)), d)))"

definition get_lesson_by_id :: "env \<Rightarrow> database option \<Rightarrow> string \<Rightarrow> response \<times> database option" where
  "get_lesson_by_id e d lessonId =
     (case lessonsCollection d of
        Inl err \<Rightarrow> (res_json 500 (error_body ''Failed to fetch lesson''), d)
      | Inr coll \<Rightarrow>
          (case ObjectId (gen e 0) (Some (JStr lessonId)) of
             Inl err \<Rightarrow> (res_json 500 (error_body ''Failed to fetch lesson''), d)
           | Inr i \<Rightarrow>
               (case findOne e coll i of
                  Inl err \<Rightarrow> (res_json 500 (error_body ''Failed to fetch lesson''), d)
                | Inr (Some lesson) \<Rightarrow> (res_json 200 (JObj lesson), d)
                | Inr None \<Rightarrow> (res_json 404 (error_body ''Lesson not found''), d))))"

definition post_lessons :: "env \<Rightarrow> database option \<Rightarrow> doc \<Rightarrow> response \<times> database option" where
  "post_lessons e d lesson =
     (case lessonsCollection d of
        Inl err \<Rightarrow> (res_json 500 (error_body ''Failed to add lesson''), d)
      | Inr coll \<Rightarrow>
          (case insertOne e coll lesson of
             (Inl err, coll') \<Rightarrow>
               (res_json 500 (error_body ''Failed to add lesson''), store_lessons d coll')
           | (Inr (insertedId, lesson'), coll') \<Rightarrow>
               (res_json 201 (JObj (set_field ''_id'' insertedId lesson')), store_lessons d coll')))"

text \<open>
  The bulk route maps the payload to one \<^verbatim>\<open>updateOne\<close> per element before it touches the
  collection; a payload that is not an array has no \<^verbatim>\<open>map\<close> to call.  A \<^verbatim>\<open>spaces\<close> that is
  \<^verbatim>\<open>undefined\<close> is written as \<^verbatim>\<open>null\<close>.
\<close>

fun bulkOperations :: "(nat \<Rightarrow> oid) \<Rightarrow> nat \<Rightarrow> json list \<Rightarrow> error + bulk_op list" where
  "bulkOperations g n [] = Inr []"
| "bulkOperations g n (update # updates) =
     (case get_prop update ''id'' of
        Inl err \<Rightarrow> Inl err
      | Inr x \<Rightarrow>
          (case ObjectId (g n) x of
             Inl err \<Rightarrow> Inl err
           | Inr i \<Rightarrow>
               (case get_prop update ''spaces'' of
                  Inl err \<Rightarrow> Inl err
                | Inr v \<Rightarrow>
                    (case bulkOperations g (Suc n) updates of
                       Inl err \<Rightarrow> Inl err
                     | Inr ops \<Rightarrow>
                         Inr (UpdateOne i [(''spaces'', case v of None \<Rightarrow> JNull | Some w \<Rightarrow> w)] # ops)))))"

definition put_updateSpaces :: "env \<Rightarrow> database option \<Rightarrow> json \<Rightarrow> response \<times> database option" where
  "put_updateSpaces e d updates =
     (case updates of
        JArr us \<Rightarrow>
          (case bulkOperations (gen e) 0 us of
             Inl err \<Rightarrow> (res_json 500 (error_body ''Failed to update spaces''), d)
           | Inr ops \<Rightarrow>
               (case lessonsCollection d of
                  Inl err \<Rightarrow> (res_json 500 (error_body ''Failed to update spaces''), d)
                | Inr coll \<Rightarrow>
                    (case bulkWrite e coll ops of
                       (Inl err, coll') \<Rightarrow>
                         (res_json 500 (error_body ''Failed to update spaces''), store_lessons d coll')
                     | (Inr r, coll') \<Rightarrow>
                         (res_json 200
                            (JObj [(''message'', JStr ''Spaces updated successfully''),
                                   (''result'', result_json r)]),
                          store_lessons d coll'))))
      | _ \<Rightarrow> (res_json 500 (error_body ''Failed to update spaces''), d))"

definition put_lesson_by_id ::
  "env \<Rightarrow> database option \<Rightarrow> string \<Rightarrow> doc \<Rightarrow> response \<times> database option" where
  "put_lesson_by_id e d lessonId updatedLesson =
     (case lessonsCollection d of
        Inl err \<Rightarrow> (res_json 500 (error_body ''Failed to update lesson''), d)
      | Inr coll \<Rightarrow>
          (case ObjectId (gen e 0) (Some (JStr lessonId)) of
             Inl err \<Rightarrow> (res_json 500 (error_body ''Failed to update lesson''), d)
           | Inr i \<Rightarrow>
               (case updateOne e coll i updatedLesson of
                  (Inl err, coll') \<Rightarrow>
                    (res_json 500 (error_body ''Failed to update lesson''), store_lessons d coll')
                | (Inr r, coll') \<Rightarrow>
                    (res_json 200 (message_body ''Lesson updated successfully''),
                     store_lessons d coll'))))"

definition delete_lesson_by_id ::
  "env \<Rightarrow> database option \<Rightarrow> string \<Rightarrow> response \<times> database option" where
  "delete_lesson_by_id e d lessonId =
     (case lessonsCollection d of
        Inl err \<Rightarrow> (res_json 500 (error_body ''Failed to delete lesson''), d)
      | Inr coll \<Rightarrow>
          (case ObjectId (gen e 0) (Some (JStr lessonId)) of
             Inl err \<Rightarrow> (res_json 500 (error_body ''Failed to delete lesson''), d)
           | Inr i \<Rightarrow>
               (case deleteOne e coll i of
                  (Inl err, coll') \<Rightarrow>
                    (res_json 500 (error_body ''Failed to delete lesson''), store_lessons d coll')
                | (Inr r, coll') \<Rightarrow>
                    (res_json 200 (message_body ''Lesson deleted successfully''),
                     store_lessons d coll'))))"

definition post_order_placed :: "env \<Rightarrow> database option \<Rightarrow> doc \<Rightarrow> response \<times> database option" where
  "post_order_placed e d order =
     (case ordersCollection d of
        Inl err \<Rightarrow> (res_json 500 (error_body ''Failed to place order''), d)
      | Inr coll \<Rightarrow>
          (case insertOne e coll order of
             (Inl err, coll') \<Rightarrow>
               (res_json 500 (error_body ''Failed to place order''), store_orders d coll')
           | (Inr r, coll') \<Rightarrow>
               (res_json 201 (message_body ''Order placed successfully''), store_orders d coll')))"

definition get_order_placed :: "env \<Rightarrow> database option \<Rightarrow> response \<times> database option" where
  "get_order_placed e d =
     (case ordersCollection d of
        Inl err \<Rightarrow> (res_json 500 (error_body ''Failed to fetch orders''), d)
      | Inr coll \<Rightarrow>
          (case find_toArray e coll of
             Inl err \<Rightarrow> (res_json 500 (error_body ''Failed to fetch orders''), d)
           | Inr os \<Rightarrow> (res_json 200 (JArr (map JObj os)), d)))"

subsection \<open>Requests\<close>

text \<open>
  A request to one of the endpoints, with the value of its path parameter and its parsed
  payload where the endpoint has them.  The JSON routes that write take an object as payload.
  \<open>GET_images\<close> is \<^verbatim>\<open>GET /images\<close> and \<open>GET_image p\<close> is \<^verbatim>\<open>GET /images/p\<close>.  \<open>OPTIONS\<close>
  is a pre-flight request to the given path, and \<open>Unparsed\<close> is a request with a payload
  that the JSON parser rejects with the given error.
\<close>

datatype request =
    OPTIONS string
  | Unparsed error
  | GET_lessons
  | GET_lesson string
  | GET_root
  | POST_lessons doc
  | PUT_updateSpaces json
  | PUT_lesson string doc
  | DELETE_lesson string
  | POST_order_placed doc
  | GET_order_placed
  | GET_images
  | GET_image string

subsection \<open>Middleware\<close>

text \<open>
  The middleware runs in the order of registration: \<^verbatim>\<open>cors()\<close>, \<^verbatim>\<open>express.json()\<close>, the
  logger, \<^verbatim>\<open>express.static\<close> on the server's directory, the image middleware, the routes,
  and the global error handler.  A middleware answers (\<^const>\<open>Some\<close>) or passes the request
  on (\<^const>\<open>None\<close>).  The logger only prints and is left out.

  \<^verbatim>\<open>cors()\<close> answers a pre-flight request itself, with 204 and no body; on every other
  request it only adds headers.
\<close>

fun cors :: "request \<Rightarrow> response option" where
  "cors (OPTIONS p) = Some \<lparr>status = 204, body = Empty\<rparr>"
| "cors r = None"

text \<open>
  What a file transfer sends for a path, or the error it ends with: a path with a trailing
  slash stands for the \<^verbatim>\<open>index.html\<close> below it, and a directory is not a file.
\<close>

definition has_trailing_slash :: "string \<Rightarrow> bool" where
  "has_trailing_slash p = (p \<noteq> [] \<and> last p = CHR ''/'')"

definition send :: "(string \<times> entry) list \<Rightarrow> string \<Rightarrow> error + string" where
  "send fs p =
     (if has_trailing_slash p then
        (case map_of fs (p @ ''index.html'') of
           Some RegularFile \<Rightarrow> Inr (p @ ''index.html'')
         | _ \<Rightarrow> Inl (FileError ''ENOENT: no such file or directory''))
      else
        (case map_of fs p of
           Some RegularFile \<Rightarrow> Inr p
         | Some Directory \<Rightarrow> Inl (FileError ''EISDIR, read'')
         | None \<Rightarrow> Inl (FileError ''ENOENT: no such file or directory'')))"

text \<open>
  \<^verbatim>\<open>express.static\<close> acts on GET requests, by the path of the URL: it sends the file that the
  path stands for, redirects the path of a directory to the same path with a slash (301, with
  a page of HTML), and passes on a request for which it finds nothing.
\<close>

fun url_path :: "request \<Rightarrow> string option" where
  "url_path GET_lessons = Some ''/lessons''"
| "url_path (GET_lesson i) = Some (''/lessons/'' @ i)"
| "url_path GET_root = Some ''/''"
| "url_path GET_order_placed = Some ''/order_placed''"
| "url_path GET_images = Some ''/images''"
| "url_path (GET_image p) = Some (''/images/'' @ p)"
| "url_path r = None"

definition express_static :: "(string \<times> entry) list \<Rightarrow> request \<Rightarrow> response option" where
  "express_static fs r =
     (case url_path r of
        None \<Rightarrow> None
      | Some p \<Rightarrow>
          if \<not> has_trailing_slash p \<and> map_of fs p = Some Directory then
            Some \<lparr>status = 301, body = Html (''Redirecting to '' @ p @ ''/'')\<rparr>
          else
            (case send fs p of
               Inr f \<Rightarrow> Some \<lparr>status = 200, body = File f\<rparr>
             | Inl err \<Rightarrow> None))"

text \<open>
  The image middleware is mounted on \<^verbatim>\<open>/images\<close> and gets the rest of the path
  (\<^verbatim>\<open>/\<close> for \<^verbatim>\<open>/images\<close> itself); when the transfer fails it answers 404 itself.
\<close>

definition images_middleware :: "(string \<times> entry) list \<Rightarrow> string \<Rightarrow> response" where
  "images_middleware fs path =
     (case send fs (''/images'' @ path) of
        Inr f \<Rightarrow> \<lparr>status = 200, body = File f\<rparr>
      | Inl err \<Rightarrow> res_json 404 (error_body ''Image not found''))"

text \<open>
  The global error handler answers every error handed to it in the same way.  It is reached
  by errors that a middleware passes on (the JSON parser on a payload it cannot parse, the
  file transfer of the landing page, which has no callback), never from a route of the API,
  since each of them catches its own.
\<close>

definition global_error_handler :: "error \<Rightarrow> response" where
  "global_error_handler err = res_json 500 (error_body ''An error occurred'')"

definition get_root :: "(string \<times> entry) list \<Rightarrow> response" where
  "get_root fs =
     (case send fs ''/index.html'' of
        Inr f \<Rightarrow> \<lparr>status = 200, body = File f\<rparr>
      | Inl err \<Rightarrow> global_error_handler err)"

subsection \<open>Dispatch\<close>

definition with_db :: "server \<Rightarrow> response \<times> database option \<Rightarrow> response \<times> server" where
  "with_db s r = (fst r, s\<lparr>db1 := snd r\<rparr>)"

fun routes :: "env \<Rightarrow> server \<Rightarrow> request \<Rightarrow> response \<times> server" where
  "routes e s GET_images = (images_middleware (files s) ''/'', s)"
| "routes e s (GET_image p) = (images_middleware (files s) (''/'' @ p), s)"
| "routes e s GET_lessons = with_db s (get_lessons e (db1 s))"
| "routes e s (GET_lesson i) = with_db s (get_lesson_by_id e (db1 s) i)"
| "routes e s GET_root = (get_root (files s), s)"
| "routes e s (POST_lessons b) = with_db s (post_lessons e (db1 s) b)"
| "routes e s (PUT_updateSpaces b) = with_db s (put_updateSpaces e (db1 s) b)"
| "routes e s (PUT_lesson i b) = with_db s (put_lesson_by_id e (db1 s) i b)"
| "routes e s (DELETE_lesson i) = with_db s (delete_lesson_by_id e (db1 s) i)"
| "routes e s (POST_order_placed b) = with_db s (post_order_placed e (db1 s) b)"
| "routes e s GET_order_placed = with_db s (get_order_placed e (db1 s))"
| "routes e s (Unparsed err) = (global_error_handler err, s)"
| "routes e s (OPTIONS p) = (\<lparr>status = 204, body = Empty\<rparr>, s)"

text \<open>
  The image middleware is listed with the routes, since no route has a path below
  \<^verbatim>\<open>/images\<close>; the last two kinds of request are answered before they get here.
\<close>

text \<open>
  The JSON parser hands the error of a payload it rejects to the error handler, past
  everything in between.
\<close>

fun express_json :: "request \<Rightarrow> error option" where
  "express_json (Unparsed err) = Some err"
| "express_json r = None"

definition handle :: "env \<Rightarrow> server \<Rightarrow> request \<Rightarrow> response \<times> server" where
  "handle e s r =
     (case cors r of
        Some answer \<Rightarrow> (answer, s)
      | None \<Rightarrow>
          (case express_json r of
             Some err \<Rightarrow> (global_error_handler err, s)
           | None \<Rightarrow>
               (case express_static (files s) r of
                  Some answer \<Rightarrow> (answer, s)
                | None \<Rightarrow> routes e s r)))"

section \<open>Notions used in the statements and proofs\<close>



text \<open>A payload brings no identifier of its own: it has no \<^verbatim>\<open>_id\<close>, or \<^verbatim>\<open>null\<close>.\<close>

definition no_own_id :: "doc \<Rightarrow> bool" where
  "no_own_id d = (case map_of d ''_id'' of None \<Rightarrow> True | Some JNull \<Rightarrow> True | Some v \<Rightarrow> False)"

text \<open>
  The first component of a key is the field of the document that the key names or leads into.
  \<open>merged u old new\<close>: the document \<open>new\<close> has the identifier of \<open>old\<close> and the value of
  \<open>old\<close> in every field that is not the first component of a key of the payload \<open>u\<close>.
  \<open>plain\<close> keys have no dot: they are their own first component.
\<close>

definition first_component :: "string \<Rightarrow> string" where
  "first_component k = takeWhile (\<lambda>c. c \<noteq> CHR ''.'') k"

definition merged :: "doc \<Rightarrow> doc \<Rightarrow> doc \<Rightarrow> bool" where
  "merged u old new =
     (map_of new ''_id'' = map_of old ''_id''
      \<and> (\<forall>k. k \<notin> first_component ` fst ` set u \<longrightarrow> map_of new k = map_of old k))"

definition plain :: "doc \<Rightarrow> bool" where
  "plain u = (\<forall>k\<in>fst ` set u. CHR ''.'' \<notin> set k)"

text \<open>
  The identifiers that a bulk payload lists are those of the filters the route builds from it.
  \<open>only_spaces ids old new\<close>: \<open>new\<close> differs from \<open>old\<close> in the field \<^verbatim>\<open>spaces\<close> at most,
  and not at all when the identifier of \<open>old\<close> is none of \<open>ids\<close>.
\<close>

fun op_id :: "bulk_op \<Rightarrow> oid" where
  "op_id (UpdateOne i u) = i"

definition listed_ids :: "env \<Rightarrow> json \<Rightarrow> oid list" where
  "listed_ids e b =
     (case b of
        JArr us \<Rightarrow> (case bulkOperations (gen e) 0 us of Inr ops \<Rightarrow> map op_id ops | Inl err \<Rightarrow> [])
      | _ \<Rightarrow> [])"

definition only_spaces :: "oid list \<Rightarrow> doc \<Rightarrow> doc \<Rightarrow> bool" where
  "only_spaces ids old new =
     ((\<forall>k. k \<noteq> ''spaces'' \<longrightarrow> map_of new k = map_of old k)
      \<and> ((\<forall>i\<in>set ids. \<not> matches_id i old) \<longrightarrow> new = old))"

definition sets_spaces :: "bulk_op \<Rightarrow> bool" where
  "sets_spaces bop =
     (case bop of UpdateOne i u \<Rightarrow> (case u of [(k, v)] \<Rightarrow> k = ''spaces'' | _ \<Rightarrow> False))"

text \<open>
  The element \<^verbatim>\<open>{id: s, spaces: v}\<close> of a bulk payload, and the pair of identifier and value
  that it stands for.
\<close>

definition update_pair :: "string \<times> json \<Rightarrow> json" where
  "update_pair p = JObj [(''id'', JStr (fst p)), (''spaces'', snd p)]"

definition same_pair :: "string \<times> json \<Rightarrow> oid \<times> json \<Rightarrow> bool" where
  "same_pair p q = (ObjectId_of_string (fst p) = Inr (fst q) \<and> snd q = snd p)"

section \<open>Properties of the values\<close>

lemma map_of_set_field: "map_of (set_field k v d) = (map_of d)(k \<mapsto> v)"
  by (induction d) (auto simp: fun_eq_iff)

lemma hex_val_hex_chr: "d < 16 \<Longrightarrow> hex_val (hex_chr d) = Some d"
  by (simp add: hex_val_def hex_chr_def Let_def)

lemma parse_hex_append:
  "parse_hex acc (xs @ ys) = (case parse_hex acc xs of None \<Rightarrow> None | Some a \<Rightarrow> parse_hex a ys)"
  by (induction xs arbitrary: acc) (auto split: option.splits)

lemma parse_hex_of_nat: "parse_hex acc (hex_of_nat k n) = Some (acc * 16 ^ k + n mod 16 ^ k)"
proof (induction k arbitrary: n)
  case 0
  then show ?case by simp
next
  case (Suc k)
  have "(n div 16) mod 16 ^ k * 16 + n mod 16 = n mod (16 * 16 ^ k)"
    by (metis add.commute mod_mult2_eq mult.commute)
  then show ?case
    by (simp add: parse_hex_append Suc hex_val_hex_chr algebra_simps)
qed

lemma length_hex_of_nat: "length (hex_of_nat k n) = k"
  by (induction k arbitrary: n) auto

lemma ObjectId_of_toHexString: "ObjectId_of_string (toHexString w) = Inr w"
proof -
  have "unat w < 2 ^ 96"
    using unsigned_less [of w] by simp
  then have "unat w mod 16 ^ 24 = unat w"
    by simp
  then show ?thesis
    by (simp add: ObjectId_of_string_def toHexString_def length_hex_of_nat parse_hex_of_nat)
qed

lemma map_of_set_field_other: "k' \<noteq> k \<Longrightarrow> map_of (set_field k v d) k' = map_of d k'"
  by (simp add: map_of_set_field)

lemma set_field_twice: "set_field k v (set_field k w d) = set_field k v d"
  by (induction d) auto

lemma split_path_first: "\<exists>cs. split_path k = first_component k # cs"
  by (induction k) (auto simp: first_component_def split: list.splits)

lemma split_path_plain: "CHR ''.'' \<notin> set k \<Longrightarrow> split_path k = [k]"
  by (induction k) auto

lemma set_path_plain: "CHR ''.'' \<notin> set k \<Longrightarrow> set_path k v d = Inr (set_field k v d)"
  by (simp add: set_path_def split_path_plain split: option.splits)

lemma set_path_outside:
  assumes "set_path k v d = Inr d'" and "k' \<noteq> first_component k"
  shows "map_of d' k' = map_of d k'"
proof -
  obtain cs where "split_path k = first_component k # cs"
    using split_path_first by blast
  with assms show ?thesis
    by (auto simp: set_path_def map_of_set_field split: option.splits sum.splits)
qed

lemma set_fields_outside:
  "set_fields u d = Inr d' \<Longrightarrow> k \<notin> first_component ` fst ` set u \<Longrightarrow> map_of d' k = map_of d k"
proof (induction u arbitrary: d)
  case Nil
  then show ?case by simp
next
  case (Cons p u)
  obtain q v where p: "p = (q, v)" by (cases p)
  from Cons.prems(1) obtain d1 where d1: "set_path q v d = Inr d1" and rest: "set_fields u d1 = Inr d'"
    by (auto simp: p split: sum.splits)
  from Cons.prems(2) have "k \<noteq> first_component q" and "k \<notin> first_component ` fst ` set u"
    by (auto simp: p)
  with Cons.IH [OF rest] set_path_outside [OF d1] show ?case
    by simp
qed

lemma set_fields_plain:
  "\<forall>k\<in>fst ` set u. CHR ''.'' \<notin> set k \<Longrightarrow>
     \<exists>d'. set_fields u d = Inr d'
        \<and> (\<forall>k. map_of d' k = (case map_of (rev u) k of Some v \<Rightarrow> Some v | None \<Rightarrow> map_of d k))"
proof (induction u arbitrary: d)
  case Nil
  then show ?case by simp
next
  case (Cons p u)
  obtain q v where p: "p = (q, v)" by (cases p)
  from Cons.prems have q: "set_path q v d = Inr (set_field q v d)"
    by (simp add: p set_path_plain)
  from Cons.prems Cons.IH [of "set_field q v d"] obtain d'
    where "set_fields u (set_field q v d) = Inr d'"
      and "\<forall>k. map_of d' k
        = (case map_of (rev u) k of Some w \<Rightarrow> Some w | None \<Rightarrow> map_of (set_field q v d) k)"
    by auto
  then show ?case
    by (auto simp: p q map_of_set_field split: option.splits)
qed

lemma set_fields_spaces: "set_fields [(''spaces'', v)] d = Inr (set_field ''spaces'' v d)"
  by (simp add: set_path_plain)

lemma find_append_last:
  "\<forall>x\<in>set xs. \<not> P x \<Longrightarrow> P y \<Longrightarrow> List.find P (xs @ [y]) = Some y"
  by (induction xs) auto

lemma find_not_None: "\<exists>l\<in>set coll. P l \<Longrightarrow> List.find P coll \<noteq> None"
  by (auto simp: find_None_iff)

lemma list_all2_in_right: "list_all2 R xs ys \<Longrightarrow> y \<in> set ys \<Longrightarrow> \<exists>x\<in>set xs. R x y"
  by (induction rule: list_all2_induct) auto

section \<open>Properties of the driver calls\<close>

lemma store_lessons_same: "store_lessons (Some db) (lessons db) = Some db"
  by (simp add: store_lessons_def)

lemma store_lessons_Some: "store_lessons (Some db) coll = Some (db\<lparr>lessons := coll\<rparr>)"
  by (simp add: store_lessons_def)

lemma update_first_no_match:
  "\<forall>l\<in>set coll. \<not> matches_id i l \<Longrightarrow> update_first i u coll = Inr (coll, 0, 0)"
  by (induction coll) auto

lemma delete_first_no_match:
  "\<forall>l\<in>set coll. \<not> matches_id i l \<Longrightarrow> delete_first i coll = (coll, 0)"
  by (induction coll) auto

subsection \<open>Inserting\<close>

lemma assign_id_generated:
  "no_own_id d \<Longrightarrow> assign_id g d = (JOid g, set_field ''_id'' (JOid g) d)"
  by (auto simp: no_own_id_def assign_id_def split: option.splits json.splits)

lemma assign_id_fields:
  "assign_id g d = (i, d') \<Longrightarrow> map_of d' = (map_of d)(''_id'' \<mapsto> i)"
  by (auto simp: assign_id_def map_of_set_field fun_eq_iff split: option.splits json.splits)

lemma insertOne_Inr:
  assumes "insertOne e coll d = (Inr (i, d'), coll')"
  shows "fault e = None" and "assign_id (gen e 0) d = (i, d')" and "coll' = coll @ [d']"
    and "\<forall>x\<in>set coll. map_of x ''_id'' \<noteq> Some i"
  using assms
  by (auto simp: insertOne_def list_ex_iff split: option.splits prod.splits if_splits)

subsection \<open>Updating one document\<close>

lemma merged_refl: "merged u d d"
  by (simp add: merged_def)

lemma update_first_merged:
  "update_first i u coll = Inr (coll', r) \<Longrightarrow> list_all2 (merged u) coll coll'"
proof (induction coll arbitrary: coll' r)
  case Nil
  then show ?case by simp
next
  case (Cons d ds)
  show ?case
  proof (cases "matches_id i d")
    case True
    with Cons.prems obtain d' where d': "set_fields u d = Inr d'"
      and same: "map_of d' ''_id'' = map_of d ''_id''" and coll': "coll' = d' # ds"
      by (auto split: sum.splits if_splits)
    then have "merged u d d'"
      by (simp add: merged_def set_fields_outside)
    then show ?thesis
      by (simp add: coll' list_all2_refl merged_refl)
  next
    case False
    with Cons.prems obtain ds' where ds': "update_first i u ds = Inr (ds', r)" and coll': "coll' = d # ds'"
      by (auto split: sum.splits)
    from Cons.IH [OF ds'] show ?thesis
      by (simp add: coll' merged_refl)
  qed
qed

lemma updateOne_merged: "list_all2 (merged u) coll (snd (updateOne e coll i u))"
  by (auto simp: updateOne_def list_all2_refl merged_refl update_first_merged
      split: option.splits sum.splits)

lemma update_first_find:
  "List.find (matches_id i) coll = Some l \<Longrightarrow> set_fields u l = Inr l' \<Longrightarrow>
     map_of l' ''_id'' = map_of l ''_id'' \<Longrightarrow>
     \<exists>coll' r. update_first i u coll = Inr (coll', r)
        \<and> List.find (matches_id i) coll' = Some l'"
proof (induction coll)
  case Nil
  then show ?case by simp
next
  case (Cons d ds)
  show ?case
  proof (cases "matches_id i d")
    case True
    with Cons.prems have "d = l"
      by simp
    with True Cons.prems(2,3) show ?thesis
      by (simp add: matches_id_def)
  next
    case False
    with Cons.prems Cons.IH obtain ds' r where "update_first i u ds = Inr (ds', r)"
      and "List.find (matches_id i) ds' = Some l'"
      by auto
    with False show ?thesis
      by simp
  qed
qed

subsection \<open>Updating in bulk\<close>

lemma only_spaces_refl: "only_spaces ids d d"
  by (simp add: only_spaces_def)

lemma only_spaces_matches:
  "only_spaces ids old new \<Longrightarrow> matches_id i new = matches_id i old"
  by (simp add: only_spaces_def matches_id_def)

lemma only_spaces_trans:
  assumes "only_spaces [i] a b" and "only_spaces ids b c"
  shows "only_spaces (i # ids) a c"
proof -
  from assms(1) have m: "matches_id j b = matches_id j a" for j
    by (rule only_spaces_matches)
  from assms show ?thesis
    by (auto simp: only_spaces_def m)
qed

lemma update_first_spaces_Cons:
  "update_first i [(''spaces'', v)] (d # ds) =
     (if matches_id i d then
        Inr (set_field ''spaces'' v d # ds, 1, if set_field ''spaces'' v d = d then 0 else 1)
      else
        (case update_first i [(''spaces'', v)] ds of
           Inl err \<Rightarrow> Inl err
         | Inr (ds', r) \<Rightarrow> Inr (d # ds', r)))"
  by (simp add: set_fields_spaces map_of_set_field del: set_fields.simps)

lemma update_first_spaces:
  "\<exists>m n. update_first i [(''spaces'', v)] coll = Inr (coll', m, n) \<Longrightarrow>
     list_all2 (only_spaces [i]) coll coll'"
proof (induction coll arbitrary: coll')
  case Nil
  then show ?case by simp
next
  case (Cons d ds)
  show ?case
  proof (cases "matches_id i d")
    case True
    with Cons.prems have coll': "coll' = set_field ''spaces'' v d # ds"
      by (auto simp: update_first_spaces_Cons simp del: update_first.simps(2))
    have "only_spaces [i] d (set_field ''spaces'' v d)"
      using True by (simp add: only_spaces_def map_of_set_field)
    then show ?thesis
      by (simp add: coll' list_all2_refl only_spaces_refl)
  next
    case False
    with Cons.prems obtain ds' where "\<exists>m n. update_first i [(''spaces'', v)] ds = Inr (ds', m, n)"
      and coll': "coll' = d # ds'"
      by (auto simp: update_first_spaces_Cons simp del: update_first.simps(2) split: sum.splits)
    from Cons.IH [OF this(1)] show ?thesis
      by (simp add: coll' only_spaces_refl)
  qed
qed

lemma update_first_spaces_succeeds:
  "\<exists>coll' m n. update_first i [(''spaces'', v)] coll = Inr (coll', m, n)"
  by (induction coll) (auto simp: update_first_spaces_Cons simp del: update_first.simps(2))

lemma run_batch_only_spaces:
  "\<forall>bop\<in>set ops. sets_spaces bop \<Longrightarrow>
     list_all2 (only_spaces (map op_id ops)) coll (snd (run_batch ops coll r))"
proof (induction ops arbitrary: coll r)
  case Nil
  then show ?case by (simp add: list_all2_refl only_spaces_refl)
next
  case (Cons bop ops)
  obtain m n where r: "r = (m, n)" by (cases r)
  from Cons.prems obtain i v where bop: "bop = UpdateOne i [(''spaces'', v)]"
    by (auto simp: sets_spaces_def split: bulk_op.splits list.splits)
  obtain coll' m' n' where u: "update_first i [(''spaces'', v)] coll = Inr (coll', m', n')"
    using update_first_spaces_succeeds by blast
  then have one: "list_all2 (only_spaces [i]) coll coll'"
    by (intro update_first_spaces) blast
  from Cons.prems have "list_all2 (only_spaces (map op_id ops)) coll'
      (snd (run_batch ops coll' (m + m', n + n')))"
    by (intro Cons.IH) simp
  with one have "list_all2 (only_spaces (i # map op_id ops)) coll
      (snd (run_batch ops coll' (m + m', n + n')))"
    by (rule list_all2_trans [rotated]) (rule only_spaces_trans)
  then show ?case
    by (simp add: bop r u)
qed

lemma bulkOperations_sets_spaces:
  "bulkOperations g n us = Inr ops \<Longrightarrow> \<forall>bop\<in>set ops. sets_spaces bop"
  by (induction us arbitrary: n ops) (auto simp: sets_spaces_def split: sum.splits)

lemma bulkWrite_only_spaces:
  "\<forall>bop\<in>set ops. sets_spaces bop \<Longrightarrow>
     list_all2 (only_spaces (map op_id ops)) coll (snd (bulkWrite e coll ops))"
  by (auto simp: bulkWrite_def list_all2_refl only_spaces_refl run_batch_only_spaces
      split: option.splits)

lemma matches_id_set_spaces: "matches_id j (set_field ''spaces'' v d) = matches_id j d"
  by (simp add: matches_id_def map_of_set_field)

lemma update_first_spaces_find:
  "update_first i [(''spaces'', v)] coll = Inr (coll', r) \<Longrightarrow>
     List.find (matches_id j) coll'
       = (if j = i then map_option (set_field ''spaces'' v) (List.find (matches_id i) coll)
          else List.find (matches_id j) coll)"
proof (induction coll arbitrary: coll' r)
  case Nil
  then show ?case by simp
next
  case (Cons d ds)
  show ?case
  proof (cases "matches_id i d")
    case True
    with Cons.prems have coll': "coll' = set_field ''spaces'' v d # ds"
      by (auto simp: update_first_spaces_Cons simp del: update_first.simps(2))
    from True have "j \<noteq> i \<Longrightarrow> \<not> matches_id j d"
      by (auto simp: matches_id_def)
    with True show ?thesis
      by (simp add: coll' matches_id_set_spaces)
  next
    case False
    with Cons.prems obtain ds' where ds': "update_first i [(''spaces'', v)] ds = Inr (ds', r)"
      and coll': "coll' = d # ds'"
      by (auto simp: update_first_spaces_Cons simp del: update_first.simps(2) split: sum.splits)
    from Cons.IH [OF ds'] False show ?thesis
      by (cases "j = i") (simp_all add: coll')
  qed
qed

text \<open>A batch built from pairs of identifier and value, looked up by identifier afterwards.\<close>

lemma run_batch_spaces_find_other:
  "i \<notin> fst ` set ps \<Longrightarrow>
     List.find (matches_id i)
        (snd (run_batch (map (\<lambda>(j, v). UpdateOne j [(''spaces'', v)]) ps) coll r))
       = List.find (matches_id i) coll"
proof (induction ps arbitrary: coll r)
  case Nil
  then show ?case by simp
next
  case (Cons p ps)
  obtain j v where p: "p = (j, v)" by (cases p)
  obtain m n where r: "r = (m, n)" by (cases r)
  obtain coll' m' n' where u: "update_first j [(''spaces'', v)] coll = Inr (coll', m', n')"
    using update_first_spaces_succeeds by blast
  from Cons.prems have "j \<noteq> i" and "i \<notin> fst ` set ps"
    by (auto simp: p)
  with Cons.IH [of coll' "(m + m', n + n')"] update_first_spaces_find [OF u, of i]
  show ?case
    by (simp add: p r u)
qed

lemma run_batch_spaces_find_some:
  "List.find (matches_id i) coll \<noteq> None \<Longrightarrow>
     List.find (matches_id i)
        (snd (run_batch (map (\<lambda>(j, v). UpdateOne j [(''spaces'', v)]) ps) coll r)) \<noteq> None"
proof (induction ps arbitrary: coll r)
  case Nil
  then show ?case by simp
next
  case (Cons p ps)
  obtain j v where p: "p = (j, v)" by (cases p)
  obtain m n where r: "r = (m, n)" by (cases r)
  obtain coll' m' n' where u: "update_first j [(''spaces'', v)] coll = Inr (coll', m', n')"
    using update_first_spaces_succeeds by blast
  from update_first_spaces_find [OF u, of i] Cons.prems
  have "List.find (matches_id i) coll' \<noteq> None"
    by (auto split: if_splits)
  from Cons.IH [OF this, of "(m + m', n + n')"] show ?case
    by (simp add: p r u)
qed

lemma run_batch_spaces_succeeds:
  "\<exists>r'. fst (run_batch (map (\<lambda>(j, v). UpdateOne j [(''spaces'', v)]) ps) coll r) = Inr r'"
proof (induction ps arbitrary: coll r)
  case Nil
  then show ?case by simp
next
  case (Cons p ps)
  obtain j v where p: "p = (j, v)" by (cases p)
  obtain m n where r: "r = (m, n)" by (cases r)
  obtain coll' m' n' where u: "update_first j [(''spaces'', v)] coll = Inr (coll', m', n')"
    using update_first_spaces_succeeds by blast
  from Cons.IH [of coll' "(m + m', n + n')"] show ?case
    by (simp add: p r u)
qed

lemma run_batch_spaces_last:
  assumes "List.find (matches_id i) coll \<noteq> None" and "i \<notin> fst ` set post"
  shows "\<exists>l. List.find (matches_id i)
        (snd (run_batch (map (\<lambda>(j, v). UpdateOne j [(''spaces'', v)]) (pre @ (i, v) # post)) coll r))
          = Some l \<and> map_of l ''spaces'' = Some v"
  using assms(1)
proof (induction pre arbitrary: coll r)
  case Nil
  obtain m n where r: "r = (m, n)" by (cases r)
  obtain coll' m' n' where u: "update_first i [(''spaces'', v)] coll = Inr (coll', m', n')"
    using update_first_spaces_succeeds by blast
  from Nil obtain l where l: "List.find (matches_id i) coll = Some l"
    by blast
  with update_first_spaces_find [OF u, of i]
  have "List.find (matches_id i) coll' = Some (set_field ''spaces'' v l)"
    by simp
  with run_batch_spaces_find_other [OF assms(2), of coll' "(m + m', n + n')"]
  show ?case
    by (simp add: r u map_of_set_field)
next
  case (Cons p pre)
  obtain j w where p: "p = (j, w)" by (cases p)
  obtain m n where r: "r = (m, n)" by (cases r)
  obtain coll' m' n' where u: "update_first j [(''spaces'', w)] coll = Inr (coll', m', n')"
    using update_first_spaces_succeeds by blast
  from update_first_spaces_find [OF u, of i] Cons.prems
  have "List.find (matches_id i) coll' \<noteq> None"
    by (auto split: if_splits)
  from Cons.IH [OF this, of "(m + m', n + n')"] show ?case
    by (simp add: p r u)
qed

lemma bulkOperations_pairs:
  "\<forall>p\<in>set ps. \<exists>i. ObjectId_of_string (fst p) = Inr i \<Longrightarrow>
     \<exists>qs. bulkOperations g n (map update_pair ps)
            = Inr (map (\<lambda>(j, v). UpdateOne j [(''spaces'', v)]) qs)
          \<and> list_all2 same_pair ps qs"
proof (induction ps arbitrary: n)
  case Nil
  then show ?case by simp
next
  case (Cons p ps)
  from Cons.prems obtain i where i: "ObjectId_of_string (fst p) = Inr i"
    by auto
  from Cons.prems Cons.IH [of "Suc n"] obtain qs
    where qs: "bulkOperations g (Suc n) (map update_pair ps)
            = Inr (map (\<lambda>(j, v). UpdateOne j [(''spaces'', v)]) qs)"
      and rel: "list_all2 same_pair ps qs"
    by auto
  have "bulkOperations g n (map update_pair (p # ps))
      = Inr (map (\<lambda>(j, v). UpdateOne j [(''spaces'', v)]) ((i, snd p) # qs))"
    by (simp add: update_pair_def i qs)
  moreover have "list_all2 same_pair (p # ps) ((i, snd p) # qs)"
    by (simp add: rel same_pair_def i)
  ultimately show ?case
    by blast
qed

section \<open>Creating and fetching a lesson\<close>

lemma post_lessons_201:
  assumes "status (fst (post_lessons e (Some db) b)) = 201"
  obtains i b' where "insertOne e (lessons db) b = (Inr (i, b'), lessons db @ [b'])"
    and "post_lessons e (Some db) b
           = (res_json 201 (JObj (set_field ''_id'' i b')), Some (db\<lparr>lessons := lessons db @ [b']\<rparr>))"
proof (cases "insertOne e (lessons db) b")
  case (Pair r coll')
  show ?thesis
  proof (cases r)
    case (Inl err)
    with Pair assms show ?thesis
      by (simp add: post_lessons_def lessonsCollection_def res_json_def)
  next
    case (Inr p)
    obtain i b' where p: "p = (i, b')" by (cases p)
    from insertOne_Inr(3) [of e "lessons db" b i b' coll'] Pair Inr p
    have "coll' = lessons db @ [b']" by simp
    with Pair Inr p show ?thesis
      by (intro that [of i b']) (simp_all add: post_lessons_def lessonsCollection_def store_lessons_def)
  qed
qed

text \<open>
  C1 (as amended).  For every lesson document that brings no \<^verbatim>\<open>_id\<close> of its own and is
  inserted successfully, the 201 response holds the submitted fields plus the generated
  identifier, which no lesson stored before has, and a following \<^verbatim>\<open>GET /lessons/:id\<close> with
  the hexadecimal form of that identifier answers 200 with the same fields.
\<close>

theorem post_lessons_then_get:
  assumes "no_own_id b"
    and "status (fst (post_lessons e (Some db) b)) = 201"
    and "fault e' = None"
  shows "\<exists>l. post_lessons e (Some db) b
               = (res_json 201 (JObj l), Some (db\<lparr>lessons := lessons db @ [l]\<rparr>))
           \<and> map_of l = (map_of b)(''_id'' \<mapsto> JOid (gen e 0))
           \<and> (\<forall>x\<in>set (lessons db). \<not> matches_id (gen e 0) x)
           \<and> fst (get_lesson_by_id e' (snd (post_lessons e (Some db) b)) (toHexString (gen e 0)))
               = res_json 200 (JObj l)"
proof -
  from assms(2) obtain i b' where ins: "insertOne e (lessons db) b = (Inr (i, b'), lessons db @ [b'])"
    and post: "post_lessons e (Some db) b
           = (res_json 201 (JObj (set_field ''_id'' i b')), Some (db\<lparr>lessons := lessons db @ [b']\<rparr>))"
    by (rule post_lessons_201)
  from insertOne_Inr(2) [OF ins] assms(1)
  have i: "i = JOid (gen e 0)" and b': "b' = set_field ''_id'' (JOid (gen e 0)) b"
    by (auto simp: assign_id_generated)
  have fields: "map_of b' = (map_of b)(''_id'' \<mapsto> JOid (gen e 0))"
    by (simp add: b' map_of_set_field)
  have same: "set_field ''_id'' i b' = b'"
  proof -
    have "set_field k v (set_field k w d) = set_field k v d" for k v w d
      by (induction d) auto
    then show ?thesis by (simp add: i b')
  qed
  have fresh: "\<forall>x\<in>set (lessons db). \<not> matches_id (gen e 0) x"
    using insertOne_Inr(4) [OF ins] by (simp add: matches_id_def i)
  have "matches_id (gen e 0) b'"
    by (simp add: matches_id_def fields)
  with fresh have "List.find (matches_id (gen e 0)) (lessons db @ [b']) = Some b'"
    by (rule find_append_last)
  with assms(3) have "fst (get_lesson_by_id e' (Some (db\<lparr>lessons := lessons db @ [b']\<rparr>))
        (toHexString (gen e 0))) = res_json 200 (JObj b')"
    by (simp add: get_lesson_by_id_def lessonsCollection_def findOne_def ObjectId_of_toHexString)
  with post same fields fresh show ?thesis
    by (intro exI [of _ b']) simp
qed

theorem post_lessons_then_get_witness:
  "\<exists>l. post_lessons \<lparr>fault = None, gen = of_nat\<rparr> (Some \<lparr>lessons = [], order_placed = []\<rparr>)
          [(''topic'', JStr ''Math''), (''spaces'', JNum 5)]
        = (res_json 201 (JObj l), Some \<lparr>lessons = [l], order_placed = []\<rparr>)
      \<and> map_of l = (map_of [(''topic'', JStr ''Math''), (''spaces'', JNum 5)])(''_id'' \<mapsto> JOid 0)
      \<and> fst (get_lesson_by_id \<lparr>fault = None, gen = of_nat\<rparr>
               (snd (post_lessons \<lparr>fault = None, gen = of_nat\<rparr> (Some \<lparr>lessons = [], order_placed = []\<rparr>)
                  [(''topic'', JStr ''Math''), (''spaces'', JNum 5)]))
               ''000000000000000000000000'')
          = res_json 200 (JObj l)"
proof -
  have h1: "no_own_id [(''topic'', JStr ''Math''), (''spaces'', JNum 5)]"
    by (simp add: no_own_id_def)
  have h2: "status (fst (post_lessons \<lparr>fault = None, gen = of_nat\<rparr>
       (Some \<lparr>lessons = [], order_placed = []\<rparr>) [(''topic'', JStr ''Math''), (''spaces'', JNum 5)])) = 201"
    by (simp add: post_lessons_def lessonsCollection_def insertOne_def assign_id_def is_array_def
        res_json_def)
  have h3: "fault \<lparr>fault = None, gen = of_nat\<rparr> = None"
    by simp
  have hex: "toHexString 0 = ''000000000000000000000000''"
    by code_simp
  from post_lessons_then_get [OF h1 h2 h3] show ?thesis
    by (simp add: hex)
qed

text \<open>
  C1 as stated fails for a document that brings its own \<^verbatim>\<open>_id\<close>: the insertion succeeds, the
  response holds the submitted fields with the caller's identifier and nothing assigned, and
  a \<^verbatim>\<open>GET /lessons/:id\<close> with that identifier answers 500.
\<close>

theorem post_lessons_own_id_counterexample:
  "status (fst (post_lessons \<lparr>fault = None, gen = of_nat\<rparr> (Some \<lparr>lessons = [], order_placed = []\<rparr>)
      [(''_id'', JStr ''abc''), (''topic'', JStr ''Math'')])) = 201
   \<and> body (fst (post_lessons \<lparr>fault = None, gen = of_nat\<rparr> (Some \<lparr>lessons = [], order_placed = []\<rparr>)
      [(''_id'', JStr ''abc''), (''topic'', JStr ''Math'')]))
       = Json (JObj [(''_id'', JStr ''abc''), (''topic'', JStr ''Math'')])
   \<and> fst (get_lesson_by_id \<lparr>fault = None, gen = of_nat\<rparr>
        (snd (post_lessons \<lparr>fault = None, gen = of_nat\<rparr> (Some \<lparr>lessons = [], order_placed = []\<rparr>)
           [(''_id'', JStr ''abc''), (''topic'', JStr ''Math'')])) ''abc'')
       = res_json 500 (error_body ''Failed to fetch lesson'')"
  by (simp add: post_lessons_def get_lesson_by_id_def lessonsCollection_def insertOne_def
      assign_id_def is_array_def store_lessons_def res_json_def ObjectId_of_string_def)

text \<open>
  C3 (as amended).  With the database connected and the lookup not rejected, a well-formed
  identifier that no lesson has is answered 404 with \<^verbatim>\<open>{error: "Lesson not found"}\<close>, and
  a well-formed identifier that some lesson has as its \<^verbatim>\<open>_id\<close>, as an object identifier, is
  answered 200 with a lesson of that identifier.
\<close>

theorem get_lesson_by_id_200_or_404:
  assumes "ObjectId_of_string s = Inr i" and "fault e = None"
  shows "((\<forall>l\<in>set (lessons db). \<not> matches_id i l) \<longrightarrow>
            get_lesson_by_id e (Some db) s = (res_json 404 (error_body ''Lesson not found''), Some db))
       \<and> ((\<exists>l\<in>set (lessons db). matches_id i l) \<longrightarrow>
            (\<exists>l\<in>set (lessons db). matches_id i l
               \<and> get_lesson_by_id e (Some db) s = (res_json 200 (JObj l), Some db)))"
proof (intro conjI impI)
  assume "\<forall>l\<in>set (lessons db). \<not> matches_id i l"
  then have "List.find (matches_id i) (lessons db) = None"
    by (simp add: find_None_iff)
  with assms show "get_lesson_by_id e (Some db) s
      = (res_json 404 (error_body ''Lesson not found''), Some db)"
    by (simp add: get_lesson_by_id_def lessonsCollection_def findOne_def)
next
  assume "\<exists>l\<in>set (lessons db). matches_id i l"
  then obtain l where l: "List.find (matches_id i) (lessons db) = Some l"
    by (cases "List.find (matches_id i) (lessons db)") (auto simp: find_None_iff)
  then have "l \<in> set (lessons db)" "matches_id i l"
    by (auto simp: find_Some_iff)
  moreover from assms l have "get_lesson_by_id e (Some db) s = (res_json 200 (JObj l), Some db)"
    by (simp add: get_lesson_by_id_def lessonsCollection_def findOne_def)
  ultimately show "\<exists>l\<in>set (lessons db). matches_id i l
      \<and> get_lesson_by_id e (Some db) s = (res_json 200 (JObj l), Some db)"
    by blast
qed

theorem get_lesson_by_id_200_or_404_witness:
  "get_lesson_by_id \<lparr>fault = None, gen = of_nat\<rparr>
      (Some \<lparr>lessons = [[(''_id'', JOid 7), (''topic'', JStr ''Math'')]], order_placed = []\<rparr>)
      ''000000000000000000000008''
     = (res_json 404 (error_body ''Lesson not found''),
        Some \<lparr>lessons = [[(''_id'', JOid 7), (''topic'', JStr ''Math'')]], order_placed = []\<rparr>)
   \<and> get_lesson_by_id \<lparr>fault = None, gen = of_nat\<rparr>
      (Some \<lparr>lessons = [[(''_id'', JOid 7), (''topic'', JStr ''Math'')]], order_placed = []\<rparr>)
      ''000000000000000000000007''
     = (res_json 200 (JObj [(''_id'', JOid 7), (''topic'', JStr ''Math'')]),
        Some \<lparr>lessons = [[(''_id'', JOid 7), (''topic'', JStr ''Math'')]], order_placed = []\<rparr>)"
proof -
  let ?e = "\<lparr>fault = None, gen = of_nat\<rparr>"
  let ?db = "\<lparr>lessons = [[(''_id'', JOid 7), (''topic'', JStr ''Math'')]], order_placed = []\<rparr>"
  have h7: "ObjectId_of_string ''000000000000000000000007'' = Inr 7"
    by code_simp
  have h8: "ObjectId_of_string ''000000000000000000000008'' = Inr 8"
    by code_simp
  have e: "fault ?e = None"
    by simp
  have absent: "\<forall>l\<in>set (lessons ?db). \<not> matches_id 8 l"
    by (simp add: matches_id_def)
  have present: "\<exists>l\<in>set (lessons ?db). matches_id 7 l"
    by (simp add: matches_id_def)
  from get_lesson_by_id_200_or_404 [OF h8 e, of ?db] absent
  have "get_lesson_by_id ?e (Some ?db) ''000000000000000000000008''
      = (res_json 404 (error_body ''Lesson not found''), Some ?db)"
    by blast
  moreover from get_lesson_by_id_200_or_404 [OF h7 e, of ?db] present
  have "get_lesson_by_id ?e (Some ?db) ''000000000000000000000007''
      = (res_json 200 (JObj [(''_id'', JOid 7), (''topic'', JStr ''Math'')]), Some ?db)"
    by simp
  ultimately show ?thesis
    by simp
qed

text \<open>
  C3 as stated fails for an identifier that a lesson has as a string: \<^verbatim>\<open>POST /lessons\<close>
  stores the \<^verbatim>\<open>_id\<close> that the payload brings, and the route converts the path identifier
  before it looks the lesson up.  The lesson with \<^verbatim>\<open>_id: "abc"\<close> is answered 500, and the
  lesson whose \<^verbatim>\<open>_id\<close> is a string of 24 hexadecimal digits is answered 404.
\<close>

theorem get_lesson_by_id_string_id_counterexample:
  "snd (post_lessons \<lparr>fault = None, gen = of_nat\<rparr> (Some \<lparr>lessons = [], order_placed = []\<rparr>)
      [(''_id'', JStr ''abc''), (''topic'', JStr ''Math'')])
     = Some \<lparr>lessons = [[(''_id'', JStr ''abc''), (''topic'', JStr ''Math'')]], order_placed = []\<rparr>
   \<and> fst (get_lesson_by_id \<lparr>fault = None, gen = of_nat\<rparr>
        (Some \<lparr>lessons = [[(''_id'', JStr ''abc''), (''topic'', JStr ''Math'')]], order_placed = []\<rparr>)
        ''abc'')
     = res_json 500 (error_body ''Failed to fetch lesson'')
   \<and> fst (get_lesson_by_id \<lparr>fault = None, gen = of_nat\<rparr>
        (Some \<lparr>lessons = [[(''_id'', JStr ''000000000000000000000007''), (''topic'', JStr ''Art'')]],
               order_placed = []\<rparr>)
        ''000000000000000000000007'')
     = res_json 404 (error_body ''Lesson not found'')"
proof -
  have hex: "ObjectId_of_string ''000000000000000000000007'' = Inr 7"
    by code_simp
  have abc: "ObjectId_of_string ''abc''
      = Inl (BSONError ''input must be a 24 character hex string, 12 byte Uint8Array, or an integer'')"
    by (simp add: ObjectId_of_string_def)
  show ?thesis
    by (simp add: post_lessons_def get_lesson_by_id_def lessonsCollection_def insertOne_def
        assign_id_def is_array_def store_lessons_def findOne_def matches_id_def hex abc)
qed

section \<open>Updating and deleting a lesson\<close>

text \<open>
  C5.  With the database connected and the call not rejected, PUT and DELETE of a well-formed
  identifier that no lesson has answer 200 with their success message, and the database is
  as it was.
\<close>

theorem absent_identifier_reports_success:
  assumes "ObjectId_of_string s = Inr i" and "fault e = None"
    and "\<forall>l\<in>set (lessons db). \<not> matches_id i l"
  shows "put_lesson_by_id e (Some db) s u
           = (res_json 200 (message_body ''Lesson updated successfully''), Some db)
       \<and> delete_lesson_by_id e (Some db) s
           = (res_json 200 (message_body ''Lesson deleted successfully''), Some db)"
  using assms
  by (simp add: put_lesson_by_id_def delete_lesson_by_id_def lessonsCollection_def
      updateOne_def deleteOne_def update_first_no_match delete_first_no_match store_lessons_same)

theorem absent_identifier_reports_success_witness:
  "put_lesson_by_id \<lparr>fault = None, gen = of_nat\<rparr>
      (Some \<lparr>lessons = [[(''_id'', JOid 7), (''topic'', JStr ''Math'')]], order_placed = []\<rparr>)
      ''000000000000000000000008'' [(''topic'', JStr ''Art'')]
     = (res_json 200 (message_body ''Lesson updated successfully''),
        Some \<lparr>lessons = [[(''_id'', JOid 7), (''topic'', JStr ''Math'')]], order_placed = []\<rparr>)
   \<and> delete_lesson_by_id \<lparr>fault = None, gen = of_nat\<rparr>
      (Some \<lparr>lessons = [[(''_id'', JOid 7), (''topic'', JStr ''Math'')]], order_placed = []\<rparr>)
      ''000000000000000000000008''
     = (res_json 200 (message_body ''Lesson deleted successfully''),
        Some \<lparr>lessons = [[(''_id'', JOid 7), (''topic'', JStr ''Math'')]], order_placed = []\<rparr>)"
proof -
  have h8: "ObjectId_of_string ''000000000000000000000008'' = Inr 8"
    by code_simp
  have e: "fault \<lparr>fault = None, gen = of_nat\<rparr> = None"
    by simp
  have absent: "\<forall>l\<in>set (lessons \<lparr>lessons = [[(''_id'', JOid 7), (''topic'', JStr ''Math'')]],
      order_placed = []\<rparr>). \<not> matches_id 8 l"
    by (simp add: matches_id_def)
  show ?thesis
    by (rule absent_identifier_reports_success [OF h8 e absent])
qed

lemma put_lesson_by_id_frame:
  "\<exists>db'. snd (put_lesson_by_id e (Some db) s u) = Some db'
         \<and> order_placed db' = order_placed db
         \<and> list_all2 (merged u) (lessons db) (lessons db')"
proof (cases "ObjectId_of_string s")
  case (Inl err)
  then show ?thesis
    by (simp add: put_lesson_by_id_def lessonsCollection_def list_all2_refl merged_refl)
next
  case (Inr i)
  have "snd (put_lesson_by_id e (Some db) s u)
      = Some (db\<lparr>lessons := snd (updateOne e (lessons db) i u)\<rparr>)"
    by (simp add: put_lesson_by_id_def lessonsCollection_def Inr store_lessons_Some
        split: prod.splits sum.splits)
  then show ?thesis
    by (simp add: updateOne_merged)
qed

text \<open>
  C9 (as amended).  \<^verbatim>\<open>PUT /lessons/:id\<close> merges: whatever the identifier, the payload and the
  outcome, every stored lesson keeps its \<^verbatim>\<open>_id\<close> and its value in each field that no key of
  the payload names, whole or as the first component of a dotted path; no lesson is added or
  removed, and the orders are untouched.
\<close>

theorem put_lesson_by_id_merges:
  "\<exists>db'. snd (put_lesson_by_id e (Some db) s u) = Some db'
         \<and> order_placed db' = order_placed db
         \<and> list_all2 (merged u) (lessons db) (lessons db')"
  by (rule put_lesson_by_id_frame)

theorem put_lesson_by_id_merges_witness:
  "\<exists>l. snd (put_lesson_by_id \<lparr>fault = None, gen = of_nat\<rparr>
          (Some \<lparr>lessons = [[(''_id'', JOid 7), (''topic'', JStr ''Math''), (''price'', JNum 100)]],
                 order_placed = []\<rparr>)
          ''000000000000000000000007'' [(''price'', JNum 90)])
        = Some \<lparr>lessons = [l], order_placed = []\<rparr>
      \<and> map_of l ''_id'' = Some (JOid 7)
      \<and> map_of l ''topic'' = Some (JStr ''Math'')
      \<and> map_of l ''price'' = Some (JNum 90)"
proof -
  let ?old = "[(''_id'', JOid 7), (''topic'', JStr ''Math''), (''price'', JNum 100)]"
  let ?db = "\<lparr>lessons = [?old], order_placed = []\<rparr>"
  let ?e = "\<lparr>fault = None, gen = of_nat\<rparr>"
  have hex: "ObjectId_of_string ''000000000000000000000007'' = Inr 7"
    by code_simp
  have run: "snd (put_lesson_by_id ?e (Some ?db) ''000000000000000000000007'' [(''price'', JNum 90)])
      = Some \<lparr>lessons = [[(''_id'', JOid 7), (''topic'', JStr ''Math''), (''price'', JNum 90)]],
              order_placed = []\<rparr>"
    by (simp add: put_lesson_by_id_def lessonsCollection_def hex updateOne_def matches_id_def
        set_path_def store_lessons_def)
  from put_lesson_by_id_merges [of ?e ?db "''000000000000000000000007''" "[(''price'', JNum 90)]"]
  obtain db' where db': "snd (put_lesson_by_id ?e (Some ?db) ''000000000000000000000007''
        [(''price'', JNum 90)]) = Some db'"
    and m: "list_all2 (merged [(''price'', JNum 90)]) (lessons ?db) (lessons db')"
    by blast
  from m obtain l where l: "lessons db' = [l]" and ml: "merged [(''price'', JNum 90)] ?old l"
    by (auto simp: list_all2_Cons1)
  from ml have "map_of l ''_id'' = Some (JOid 7)" "map_of l ''topic'' = Some (JStr ''Math'')"
    by (simp_all add: merged_def first_component_def)
  moreover from run db' l have "l = [(''_id'', JOid 7), (''topic'', JStr ''Math''), (''price'', JNum 90)]"
    by simp
  ultimately show ?thesis
    using run by simp
qed

text \<open>
  C9 as stated fails for a payload with a dotted key: the key \<^verbatim>\<open>location.city\<close> is a path
  into the field \<^verbatim>\<open>location\<close>, so the request changes the value of \<^verbatim>\<open>location\<close>, a field
  of the stored lesson that the payload does not have.
\<close>

theorem put_lesson_by_id_dotted_key_counterexample:
  "map_of [(''location.city'', JStr ''Leeds'')] ''location'' = None
   \<and> put_lesson_by_id \<lparr>fault = None, gen = of_nat\<rparr>
        (Some \<lparr>lessons = [[(''_id'', JOid 7),
                            (''location'', JObj [(''city'', JStr ''York''), (''zip'', JNum 1)])]],
               order_placed = []\<rparr>)
        ''000000000000000000000007'' [(''location.city'', JStr ''Leeds'')]
     = (res_json 200 (message_body ''Lesson updated successfully''),
        Some \<lparr>lessons = [[(''_id'', JOid 7),
                            (''location'', JObj [(''city'', JStr ''Leeds''), (''zip'', JNum 1)])]],
               order_placed = []\<rparr>)"
proof -
  have hex: "ObjectId_of_string ''000000000000000000000007'' = Inr 7"
    by code_simp
  show ?thesis
    by (simp add: put_lesson_by_id_def lessonsCollection_def hex updateOne_def matches_id_def
        set_path_def store_lessons_def)
qed

text \<open>
  For a payload of plain keys the amended statement is the original one: every field that
  the payload does not have keeps its value.
\<close>

lemma put_lesson_by_id_merges_plain:
  assumes "plain u"
  shows "\<exists>db'. snd (put_lesson_by_id e (Some db) s u) = Some db'
         \<and> list_all2 (\<lambda>old new. map_of new ''_id'' = map_of old ''_id''
               \<and> (\<forall>k. k \<notin> fst ` set u \<longrightarrow> map_of new k = map_of old k))
             (lessons db) (lessons db')"
proof -
  have "first_component k = k" if "k \<in> fst ` set u" for k
    using that assms by (auto simp: plain_def first_component_def takeWhile_eq_all_conv)
  then have "first_component ` fst ` set u = fst ` set u"
    by force
  then have "merged u = (\<lambda>old new. map_of new ''_id'' = map_of old ''_id''
      \<and> (\<forall>k. k \<notin> fst ` set u \<longrightarrow> map_of new k = map_of old k))"
    by (simp add: merged_def fun_eq_iff)
  with put_lesson_by_id_frame [of e db s u] show ?thesis
    by auto
qed

text \<open>
  The merge does write: when the identifier selects a lesson and the update of that lesson
  goes through, the lesson fetched afterwards is the updated one; for a payload of plain keys
  that is the old lesson with the fields of the payload written over it.
\<close>

lemma put_lesson_by_id_writes_payload:
  assumes "ObjectId_of_string s = Inr i" and "fault e = None"
    and "List.find (matches_id i) (lessons db) = Some l"
    and "set_fields u l = Inr l'" and "map_of l' ''_id'' = map_of l ''_id''"
  shows "fst (put_lesson_by_id e (Some db) s u)
           = res_json 200 (message_body ''Lesson updated successfully'')
       \<and> fst (get_lesson_by_id e (snd (put_lesson_by_id e (Some db) s u)) s)
           = res_json 200 (JObj l')"
proof -
  from update_first_find [OF assms(3,4,5)] obtain coll' r
    where u: "update_first i u (lessons db) = Inr (coll', r)"
      and f: "List.find (matches_id i) coll' = Some l'"
    by blast
  from assms(1,2) u have "put_lesson_by_id e (Some db) s u
      = (res_json 200 (message_body ''Lesson updated successfully''), Some (db\<lparr>lessons := coll'\<rparr>))"
    by (simp add: put_lesson_by_id_def lessonsCollection_def updateOne_def store_lessons_Some)
  with assms(1,2) f show ?thesis
    by (simp add: get_lesson_by_id_def lessonsCollection_def findOne_def)
qed

text \<open>
  C7.  A path identifier that \<^verbatim>\<open>new ObjectId\<close> does not accept makes the conversion throw
  inside the route's \<^verbatim>\<open>try\<close>; the route's own catch-all branch answers 500 (not 400) with
  its fixed message, on GET, PUT and DELETE of \<^verbatim>\<open>/lessons/:id\<close> alike, whatever the state of
  the database and the payload, and nothing is written.
\<close>

theorem invalid_identifier_answers_500:
  assumes "ObjectId_of_string i = Inl err"
  shows "get_lesson_by_id e d i = (res_json 500 (error_body ''Failed to fetch lesson''), d)
       \<and> put_lesson_by_id e d i u = (res_json 500 (error_body ''Failed to update lesson''), d)
       \<and> delete_lesson_by_id e d i = (res_json 500 (error_body ''Failed to delete lesson''), d)"
  using assms
  by (simp add: get_lesson_by_id_def put_lesson_by_id_def delete_lesson_by_id_def
      split: sum.splits)

theorem invalid_identifier_answers_500_witness:
  "get_lesson_by_id \<lparr>fault = None, gen = of_nat\<rparr> (Some \<lparr>lessons = [], order_placed = []\<rparr>) ''abc''
     = (res_json 500 (error_body ''Failed to fetch lesson''), Some \<lparr>lessons = [], order_placed = []\<rparr>)
   \<and> put_lesson_by_id \<lparr>fault = None, gen = of_nat\<rparr> (Some \<lparr>lessons = [], order_placed = []\<rparr>) ''abc''
       [(''spaces'', JNum 3)]
     = (res_json 500 (error_body ''Failed to update lesson''), Some \<lparr>lessons = [], order_placed = []\<rparr>)
   \<and> delete_lesson_by_id \<lparr>fault = None, gen = of_nat\<rparr> (Some \<lparr>lessons = [], order_placed = []\<rparr>) ''abc''
     = (res_json 500 (error_body ''Failed to delete lesson''), Some \<lparr>lessons = [], order_placed = []\<rparr>)"
proof -
  have h: "ObjectId_of_string ''abc''
      = Inl (BSONError ''input must be a 24 character hex string, 12 byte Uint8Array, or an integer'')"
    by (simp add: ObjectId_of_string_def)
  show ?thesis
    by (rule invalid_identifier_answers_500 [OF h])
qed

section \<open>The bulk update\<close>

text \<open>
  C2 (as amended).  When every pair of the payload names a well-formed identifier of an
  existing lesson and the request succeeds, each listed lesson is fetched afterwards with
  \<^verbatim>\<open>spaces\<close> equal to the value of the last pair listed for its identifier, whatever
  its value was before.
\<close>

theorem bulk_update_last_value_wins:
  assumes valid: "\<forall>p\<in>set ps. \<exists>i. ObjectId_of_string (fst p) = Inr i
                    \<and> (\<exists>l\<in>set (lessons db). matches_id i l)"
    and ok: "status (fst (put_updateSpaces e (Some db) (JArr (map update_pair ps)))) = 200"
    and ps: "ps = pre @ (s, v) # post"
    and s: "ObjectId_of_string s = Inr i"
    and last: "\<forall>p\<in>set post. ObjectId_of_string (fst p) \<noteq> Inr i"
    and e': "fault e' = None"
  shows "\<exists>l. fst (get_lesson_by_id e' (snd (put_updateSpaces e (Some db) (JArr (map update_pair ps)))) s)
               = res_json 200 (JObj l)
           \<and> map_of l ''spaces'' = Some v"
proof -
  let ?mk = "\<lambda>(j, v). UpdateOne j [(''spaces'', v)]"
  from valid have "\<forall>p\<in>set ps. \<exists>i. ObjectId_of_string (fst p) = Inr i"
    by blast
  from bulkOperations_pairs [OF this, of "gen e" 0] obtain qs
    where ops: "bulkOperations (gen e) 0 (map update_pair ps) = Inr (map ?mk qs)"
      and rel: "list_all2 same_pair ps qs"
    by blast
  from rel ps obtain qpre q qpost where qs: "qs = qpre @ q # qpost"
    and q: "same_pair (s, v) q" and rpost: "list_all2 same_pair post qpost"
    by (auto simp: list_all2_append1 list_all2_Cons1)
  from q s have q': "q = (i, v)"
    by (cases q) (simp add: same_pair_def)
  have notin: "i \<notin> fst ` set qpost"
  proof
    assume "i \<in> fst ` set qpost"
    then obtain q' where "q' \<in> set qpost" and "fst q' = i"
      by auto
    with rpost obtain p where "p \<in> set post" and "same_pair p q'"
      by (blast dest: list_all2_in_right)
    with last \<open>fst q' = i\<close> show False
      by (simp add: same_pair_def)
  qed
  have "qs \<noteq> []"
    by (simp add: qs)
  with ok have f: "fault e = None"
    by (auto simp: put_updateSpaces_def ops lessonsCollection_def bulkWrite_def res_json_def
        split: option.splits)
  with \<open>qs \<noteq> []\<close> have after: "snd (put_updateSpaces e (Some db) (JArr (map update_pair ps)))
      = Some (db\<lparr>lessons := snd (run_batch (map ?mk qs) (lessons db) (0, 0))\<rparr>)"
    by (simp add: put_updateSpaces_def ops lessonsCollection_def bulkWrite_def store_lessons_Some
        split: prod.splits sum.splits)
  from valid ps s have "\<exists>l\<in>set (lessons db). matches_id i l"
    by auto
  then have "List.find (matches_id i) (lessons db) \<noteq> None"
    by (rule find_not_None)
  from run_batch_spaces_last [OF this notin, of qpre v "(0, 0)"] obtain l
    where l: "List.find (matches_id i) (snd (run_batch (map ?mk qs) (lessons db) (0, 0))) = Some l"
      and sp: "map_of l ''spaces'' = Some v"
    by (auto simp: qs q')
  from e' s l have "fst (get_lesson_by_id e'
      (Some (db\<lparr>lessons := snd (run_batch (map ?mk qs) (lessons db) (0, 0))\<rparr>)) s)
        = res_json 200 (JObj l)"
    by (simp add: get_lesson_by_id_def lessonsCollection_def findOne_def)
  with after sp show ?thesis
    by (intro exI [of _ l]) simp
qed

theorem bulk_update_last_value_wins_witness:
  "\<exists>l. fst (get_lesson_by_id \<lparr>fault = None, gen = of_nat\<rparr>
          (snd (put_updateSpaces \<lparr>fault = None, gen = of_nat\<rparr>
             (Some \<lparr>lessons = [[(''_id'', JOid 7), (''spaces'', JNum 1)],
                              [(''_id'', JOid 8), (''spaces'', JNum 9)]],
                    order_placed = []\<rparr>)
             (JArr (map update_pair [(''000000000000000000000007'', JNum 5),
                                     (''000000000000000000000008'', JNum 0)]))))
          ''000000000000000000000007'')
        = res_json 200 (JObj l)
      \<and> map_of l ''spaces'' = Some (JNum 5)"
proof -
  let ?e = "\<lparr>fault = None, gen = of_nat\<rparr>"
  let ?db = "\<lparr>lessons = [[(''_id'', JOid 7), (''spaces'', JNum 1)],
                         [(''_id'', JOid 8), (''spaces'', JNum 9)]], order_placed = []\<rparr>"
  let ?ps = "[(''000000000000000000000007'', JNum 5), (''000000000000000000000008'', JNum 0)]"
  have h7: "ObjectId_of_string ''000000000000000000000007'' = Inr 7"
    by code_simp
  have h8: "ObjectId_of_string ''000000000000000000000008'' = Inr 8"
    by code_simp
  have valid: "\<forall>p\<in>set ?ps. \<exists>i. ObjectId_of_string (fst p) = Inr i
      \<and> (\<exists>l\<in>set (lessons ?db). matches_id i l)"
    by (simp add: h7 h8 matches_id_def)
  have ok: "status (fst (put_updateSpaces ?e (Some ?db) (JArr (map update_pair ?ps)))) = 200"
    by (simp add: put_updateSpaces_def update_pair_def h7 h8 lessonsCollection_def bulkWrite_def
        matches_id_def set_path_def res_json_def)
  have ps: "?ps = [] @ (''000000000000000000000007'', JNum 5) # [(''000000000000000000000008'', JNum 0)]"
    by simp
  have last: "\<forall>p\<in>set [(''000000000000000000000008'', JNum 0)]. ObjectId_of_string (fst p) \<noteq> Inr 7"
    by (simp add: h8)
  have e': "fault ?e = None"
    by simp
  show ?thesis
    by (rule bulk_update_last_value_wins [OF valid ok ps h7 last e'])
qed

text \<open>
  C2 as stated fails when an identifier is listed twice: the request succeeds, and the lesson
  ends with the value of the second pair (0), not with the value 5 that the first pair gives
  for its identifier.
\<close>

theorem bulk_update_repeated_id_counterexample:
  "status (fst (put_updateSpaces \<lparr>fault = None, gen = of_nat\<rparr>
       (Some \<lparr>lessons = [[(''_id'', JOid 7), (''spaces'', JNum 1)]], order_placed = []\<rparr>)
       (JArr [JObj [(''id'', JStr ''000000000000000000000007''), (''spaces'', JNum 5)],
              JObj [(''id'', JStr ''000000000000000000000007''), (''spaces'', JNum 0)]]))) = 200
   \<and> fst (get_lesson_by_id \<lparr>fault = None, gen = of_nat\<rparr>
        (snd (put_updateSpaces \<lparr>fault = None, gen = of_nat\<rparr>
           (Some \<lparr>lessons = [[(''_id'', JOid 7), (''spaces'', JNum 1)]], order_placed = []\<rparr>)
           (JArr [JObj [(''id'', JStr ''000000000000000000000007''), (''spaces'', JNum 5)],
                  JObj [(''id'', JStr ''000000000000000000000007''), (''spaces'', JNum 0)]])))
        ''000000000000000000000007'')
       = res_json 200 (JObj [(''_id'', JOid 7), (''spaces'', JNum 0)])"
proof -
  have h7: "ObjectId_of_string ''000000000000000000000007'' = Inr 7"
    by code_simp
  show ?thesis
    by (simp add: put_updateSpaces_def get_lesson_by_id_def h7 lessonsCollection_def bulkWrite_def
        findOne_def matches_id_def set_path_def store_lessons_def res_json_def)
qed

text \<open>
  C8.  Whatever the payload and the outcome of \<^verbatim>\<open>PUT /lessons/updateSpaces\<close>, every stored
  lesson keeps its value in each field other than \<^verbatim>\<open>spaces\<close>, a lesson whose identifier is
  not listed is left as it was, no lesson is added or removed, and the orders are untouched.
\<close>

theorem put_updateSpaces_changes_only_spaces:
  "\<exists>db'. snd (put_updateSpaces e (Some db) b) = Some db'
         \<and> order_placed db' = order_placed db
         \<and> list_all2 (only_spaces (listed_ids e b)) (lessons db) (lessons db')"
proof (cases "\<exists>us ops. b = JArr us \<and> bulkOperations (gen e) 0 us = Inr ops")
  case True
  then obtain us ops where b: "b = JArr us" and ops: "bulkOperations (gen e) 0 us = Inr ops"
    by blast
  have "snd (put_updateSpaces e (Some db) b)
      = Some (db\<lparr>lessons := snd (bulkWrite e (lessons db) ops)\<rparr>)"
    by (simp add: put_updateSpaces_def b ops lessonsCollection_def store_lessons_Some
        split: prod.splits sum.splits)
  moreover have "listed_ids e b = map op_id ops"
    by (simp add: listed_ids_def b ops)
  ultimately show ?thesis
    using bulkWrite_only_spaces [OF bulkOperations_sets_spaces [OF ops]] by simp
next
  case False
  then have "snd (put_updateSpaces e (Some db) b) = Some db"
    by (auto simp: put_updateSpaces_def split: json.splits sum.splits)
  then show ?thesis
    by (simp add: list_all2_refl only_spaces_refl)
qed

theorem put_updateSpaces_changes_only_spaces_witness:
  "\<exists>a b. snd (put_updateSpaces \<lparr>fault = None, gen = of_nat\<rparr>
          (Some \<lparr>lessons = [[(''_id'', JOid 7), (''topic'', JStr ''Math''), (''spaces'', JNum 5)],
                           [(''_id'', JOid 8), (''topic'', JStr ''Art''), (''spaces'', JNum 2)]],
                 order_placed = []\<rparr>)
          (JArr [JObj [(''id'', JStr ''000000000000000000000007''), (''spaces'', JNum 0)]]))
        = Some \<lparr>lessons = [a, b], order_placed = []\<rparr>
      \<and> map_of a ''_id'' = Some (JOid 7)
      \<and> map_of a ''topic'' = Some (JStr ''Math'')
      \<and> map_of a ''spaces'' = Some (JNum 0)
      \<and> b = [(''_id'', JOid 8), (''topic'', JStr ''Art''), (''spaces'', JNum 2)]"
proof -
  let ?e = "\<lparr>fault = None, gen = of_nat\<rparr>"
  let ?a = "[(''_id'', JOid 7), (''topic'', JStr ''Math''), (''spaces'', JNum 5)]"
  let ?b = "[(''_id'', JOid 8), (''topic'', JStr ''Art''), (''spaces'', JNum 2)]"
  let ?db = "\<lparr>lessons = [?a, ?b], order_placed = []\<rparr>"
  let ?body = "JArr [JObj [(''id'', JStr ''000000000000000000000007''), (''spaces'', JNum 0)]]"
  have h7: "ObjectId_of_string ''000000000000000000000007'' = Inr 7"
    by code_simp
  have ids: "listed_ids ?e ?body = [7]"
    by (simp add: listed_ids_def h7)
  have run: "snd (put_updateSpaces ?e (Some ?db) ?body)
      = Some \<lparr>lessons = [[(''_id'', JOid 7), (''topic'', JStr ''Math''), (''spaces'', JNum 0)], ?b],
              order_placed = []\<rparr>"
    by (simp add: put_updateSpaces_def h7 lessonsCollection_def bulkWrite_def matches_id_def
        set_path_def store_lessons_def)
  from put_updateSpaces_changes_only_spaces [of ?e ?db ?body]
  obtain db' where db': "snd (put_updateSpaces ?e (Some ?db) ?body) = Some db'"
    and frame: "list_all2 (only_spaces (listed_ids ?e ?body)) (lessons ?db) (lessons db')"
    by blast
  from frame obtain a b where ab: "lessons db' = [a, b]"
    and fa: "only_spaces [7] ?a a" and fb: "only_spaces [7] ?b b"
    by (auto simp: ids list_all2_Cons1)
  from fa have "map_of a ''_id'' = Some (JOid 7)" "map_of a ''topic'' = Some (JStr ''Math'')"
    by (simp_all add: only_spaces_def)
  moreover from fb have "b = ?b"
    by (simp add: only_spaces_def matches_id_def)
  moreover from run db' ab have "map_of a ''spaces'' = Some (JNum 0)"
    by auto
  moreover from run db' ab have "snd (put_updateSpaces ?e (Some ?db) ?body)
      = Some \<lparr>lessons = [a, b], order_placed = []\<rparr>"
    by auto
  ultimately show ?thesis
    by blast
qed

text \<open>
  C10.  An empty array as payload of \<^verbatim>\<open>PUT /lessons/updateSpaces\<close> is answered 500 with
  \<^verbatim>\<open>{error: "Failed to update spaces"}\<close>: the batch is empty, the batched call rejects it,
  and the database is as it was.
\<close>

theorem empty_batch_answers_500:
  "put_updateSpaces e d (JArr []) = (res_json 500 (error_body ''Failed to update spaces''), d)"
  by (cases d)
     (simp_all add: put_updateSpaces_def lessonsCollection_def bulkWrite_def store_lessons_def)

section \<open>Placing an order\<close>




section \<open>Failure responses\<close>






















text \<open>
  The responses that are neither a success nor a failure: a directory below the server's
  directory is redirected by the static middleware before the image middleware or a route
  sees the request, and a pre-flight request is answered by \<^verbatim>\<open>cors()\<close>.
\<close>

lemma get_images_redirected:
  "fst (handle e \<lparr>db1 = d, files = [(''/images'', Directory)]\<rparr> GET_images)
     = \<lparr>status = 301, body = Html ''Redirecting to /images/''\<rparr>"
  by (simp add: handle_def express_static_def has_trailing_slash_def)

lemma options_preflight: "fst (handle e s (OPTIONS p)) = \<lparr>status = 204, body = Empty\<rparr>"
  by (simp add: handle_def)

end
